theory Spec2Isabelle
  imports Main "HOL-Library.Word"
begin

section \<open>The Cosmos DB Mongo database resource: data model\<close>

text \<open>
  A shallow embedding of \<^verbatim>\<open>cosmosdb_mongo_database_resource.go\<close>: the four operations
  \<^verbatim>\<open>resourceCosmosDbMongoDatabaseCreate\<close>, \<^verbatim>\<open>...Update\<close>, \<^verbatim>\<open>...Read\<close> and \<^verbatim>\<open>...Delete\<close>.
  The remote control plane is a record of functions over an abstract remote state
  \<open>'r\<close>; every operation threads that state, returns the updated resource data and the
  list of remote calls it issued. Go's \<^verbatim>\<open>(value, err)\<close> results are pairs whose second
  component is \<open>None\<close> for a nil error. A pointer is an \<open>option\<close> (\<open>None\<close> is nil).
\<close>

type_synonym go_error = string

text \<open>
  The errors the operations return: \<^verbatim>\<open>fmt.Errorf(format, args..., err)\<close> keeps its format
  string, its \<^verbatim>\<open>%q\<close> arguments and the wrapped error (if any); \<^verbatim>\<open>return err\<close> passes an
  error on unchanged.
\<close>

datatype error =
    Errorf string "string list" "go_error option"
  | ImportAsExistsError string string
  | Passed go_error

text \<open>What a call of an operation does: return nil, return an error, or panic on a nil
  pointer dereference.\<close>

datatype outcome = ReturnNil | ReturnErr error | NilDereference

record MongoDBDatabaseGetPropertiesResource =
  res_ID :: "string option"

record MongoDBDatabaseGetProperties =
  props_Resource :: "MongoDBDatabaseGetPropertiesResource option"

text \<open>\<open>db_Response\<close> is the status code of the embedded HTTP response (\<open>None\<close>: no response).\<close>

record MongoDBDatabaseGetResults =
  db_Response :: "nat option"
  db_ID :: "string option"
  db_MongoDBDatabaseGetProperties :: "MongoDBDatabaseGetProperties option"

record DatabaseAccountGetResults =
  acc_Response :: "nat option"
  acc_ID :: "string option"
  acc_Capabilities :: "string list"

record AutoscaleSettings =
  as_MaxThroughput :: "32 word option"

record ThroughputSettingsGetResults =
  tsg_Response :: "nat option"
  tsg_Throughput :: "32 word option"
  tsg_AutoscaleSettings :: "AutoscaleSettings option"

record ThroughputSettingsUpdateParameters =
  tsu_Throughput :: "32 word option"
  tsu_AutoscaleSettings :: "AutoscaleSettings option"

text \<open>
  \<^verbatim>\<open>MongoDBDatabaseCreateUpdateParameters\<close>: the source always allocates the properties,
  the resource and the options, so only the pointers it may leave nil are options here:
  \<^verbatim>\<open>Resource.ID\<close>, \<^verbatim>\<open>Options.Throughput\<close> and \<^verbatim>\<open>Options.AutoscaleSettings\<close>.
\<close>

record MongoDBDatabaseCreateUpdateParameters =
  Resource_ID :: "string option"
  Options_Throughput :: "32 word option"
  Options_AutoscaleSettings :: "AutoscaleSettings option"

text \<open>
  The future of a long-running call: the status code of the response it holds and the
  token the remote knows it by. A future that a submission returned together with an
  error before any response came back holds no response (\<open>None\<close>), and
  \<^verbatim>\<open>future.Response()\<close> on it dereferences nil.
\<close>

record Future =
  fut_Response :: "nat option"
  fut_token :: nat

record MongodbDatabaseId =
  ResourceGroup :: string
  DatabaseAccountName :: string
  Name :: string

text \<open>
  \<^verbatim>\<open>schema.ResourceData\<close>: the identifier and the five fields of the schema. A field that
  is null (unset) is \<open>None\<close>; \<^verbatim>\<open>autoscale_settings\<close> is a list of blocks, each holding its
  \<^verbatim>\<open>max_throughput\<close>.
\<close>

record ResourceData =
  rd_Id :: string
  rd_name :: "string option"
  rd_resource_group_name :: "string option"
  rd_account_name :: "string option"
  rd_throughput :: "int option"
  rd_autoscale_settings :: "int list option"

text \<open>\<^verbatim>\<open>d.Get(key).(string)\<close>: the zero value when the field is unset.\<close>

definition Get_string :: "string option \<Rightarrow> string" where
  "Get_string v = (case v of None \<Rightarrow> [] | Some s \<Rightarrow> s)"

text \<open>\<^verbatim>\<open>d.GetOk(key)\<close>: the value, and whether it is set to something other than the zero
  value of its type.\<close>

definition GetOk_int :: "int option \<Rightarrow> int \<times> bool" where
  "GetOk_int v = (case v of None \<Rightarrow> (0, False) | Some n \<Rightarrow> (n, n \<noteq> 0))"

definition GetOk_list :: "int list option \<Rightarrow> int list \<times> bool" where
  "GetOk_list v = (case v of None \<Rightarrow> ([], False) | Some xs \<Rightarrow> (xs, xs \<noteq> []))"

text \<open>
  Modelled from the spec: \<^verbatim>\<open>utils.ResponseWasNotFound\<close> and \<^verbatim>\<open>response.WasNotFound\<close> are
  not in the source file; the spec says that not-found is detected by inspecting the
  generic response object. Here: the response exists and its status code is 404.
\<close>

definition ResponseWasNotFound :: "nat option \<Rightarrow> bool" where
  "ResponseWasNotFound resp = (resp = Some 404)"

definition WasNotFound :: "nat option \<Rightarrow> bool" where
  "WasNotFound resp = (resp = Some 404)"

subsection \<open>The remote client and the helpers of other packages\<close>

text \<open>
  The methods of \<^verbatim>\<open>Cosmos.MongoDbClient\<close> and \<^verbatim>\<open>Cosmos.DatabaseClient\<close> the operations call.
  Each takes the remote state and returns its Go result with the next remote state.
\<close>

record 'r Client =
  GetMongoDBDatabase ::
    "'r \<Rightarrow> string \<Rightarrow> string \<Rightarrow> string \<Rightarrow> (MongoDBDatabaseGetResults \<times> go_error option) \<times> 'r"
  CreateUpdateMongoDBDatabase ::
    "'r \<Rightarrow> string \<Rightarrow> string \<Rightarrow> string \<Rightarrow> MongoDBDatabaseCreateUpdateParameters
      \<Rightarrow> (Future \<times> go_error option) \<times> 'r"
  UpdateMongoDBDatabaseThroughput ::
    "'r \<Rightarrow> string \<Rightarrow> string \<Rightarrow> string \<Rightarrow> ThroughputSettingsUpdateParameters
      \<Rightarrow> (Future \<times> go_error option) \<times> 'r"
  GetMongoDBDatabaseThroughput ::
    "'r \<Rightarrow> string \<Rightarrow> string \<Rightarrow> string \<Rightarrow> (ThroughputSettingsGetResults \<times> go_error option) \<times> 'r"
  DeleteMongoDBDatabase ::
    "'r \<Rightarrow> string \<Rightarrow> string \<Rightarrow> string \<Rightarrow> (Future \<times> go_error option) \<times> 'r"
  WaitForCompletionRef :: "'r \<Rightarrow> Future \<Rightarrow> go_error option \<times> 'r"
  AccountGet :: "'r \<Rightarrow> string \<Rightarrow> string \<Rightarrow> (DatabaseAccountGetResults \<times> go_error option) \<times> 'r"

text \<open>
  The functions of the packages \<^verbatim>\<open>parse\<close>, \<^verbatim>\<open>common\<close> and \<^verbatim>\<open>cosmos\<close> that the file calls
  and that are defined elsewhere. They are parameters of the model: every theorem below
  holds whatever they compute.
\<close>

record helpers =
  MongodbDatabaseID :: "string \<Rightarrow> go_error + MongodbDatabaseId"
  isServerlessCapacityMode :: "DatabaseAccountGetResults \<Rightarrow> bool"
  CheckForChangeFromAutoscaleAndManualThroughput :: "ResourceData \<Rightarrow> go_error option"
  HasThroughputChange :: "ResourceData \<Rightarrow> bool"
  ExpandCosmosDBThroughputSettingsUpdateParameters ::
    "ResourceData \<Rightarrow> ThroughputSettingsUpdateParameters option"
  ConvertThroughputFromResourceData :: "int \<Rightarrow> 32 word option"
  ExpandCosmosDbAutoscaleSettings :: "ResourceData \<Rightarrow> AutoscaleSettings option"
  SetResourceDataThroughputFromResponse ::
    "ThroughputSettingsGetResults \<Rightarrow> ResourceData \<Rightarrow> ResourceData"

text \<open>
  \<^verbatim>\<open>future.WaitForCompletionRef\<close> on the future of a submission that returned \<open>err\<close>. A
  future that came with an error is terminated: waiting on it returns the failure it
  ended with and asks the remote nothing; the model takes that failure to be the error
  of the submission. Otherwise the remote is polled. Create and the base request of
  Update wait only after a submission without error (lines 122 and 169), so they poll
  the remote.
\<close>

definition future_wait ::
  "'r Client \<Rightarrow> 'r \<Rightarrow> Future \<Rightarrow> go_error option \<Rightarrow> go_error option \<times> 'r" where
  "future_wait client r future err =
     (case err of
        Some e \<Rightarrow> (Some e, r)
      | None \<Rightarrow> WaitForCompletionRef client r future)"

subsection \<open>The record of remote calls\<close>

text \<open>The places of the source that call the remote.\<close>

datatype site =
    CreateProbe | CreateSubmit | CreateWait | CreateRefetch
  | UpdateSubmit | UpdateWait | UpdateThroughputSubmit | UpdateThroughputWait | UpdateRefetch
  | ReadFetch | ReadAccount | ReadThroughput
  | DeleteSubmit | DeleteWait

datatype call =
    Call_GetMongoDBDatabase string string string
  | Call_CreateUpdateMongoDBDatabase string string string MongoDBDatabaseCreateUpdateParameters
  | Call_UpdateMongoDBDatabaseThroughput string string string ThroughputSettingsUpdateParameters
  | Call_GetMongoDBDatabaseThroughput string string string
  | Call_DeleteMongoDBDatabase string string string
  | Call_WaitForCompletionRef Future
  | Call_AccountGet string string

text \<open>
  One remote call as it happened: where in the source, the call with its arguments, the
  error and the response status that came back, and the resource group, account and
  database names the operation had in scope there.
\<close>

datatype event = Event (ev_site: site) (ev_call: call) (ev_err: "go_error option")
  (ev_Response: "nat option") (ev_scope: "string \<times> string \<times> string")

type_synonym 'r run = "outcome \<times> ResourceData \<times> 'r \<times> event list"

definition outcome_of :: "'r run \<Rightarrow> outcome" where
  "outcome_of x = fst x"

definition data_of :: "'r run \<Rightarrow> ResourceData" where
  "data_of x = fst (snd x)"

definition calls_of :: "'r run \<Rightarrow> event list" where
  "calls_of x = snd (snd (snd x))"

text \<open>Sequencing: the calls of an earlier part of an operation come first.\<close>

definition after :: "event list \<Rightarrow> 'r run \<Rightarrow> 'r run" where
  "after evs x = (case x of (out, d, r, evs') \<Rightarrow> (out, d, r, evs @ evs'))"

section \<open>Read\<close>

text \<open>Lines 234 to 249: the throughput query, skipped for a serverless account.\<close>

definition read_throughput ::
  "'r Client \<Rightarrow> helpers \<Rightarrow> MongodbDatabaseId \<Rightarrow> DatabaseAccountGetResults
    \<Rightarrow> ResourceData \<Rightarrow> 'r \<Rightarrow> 'r run" where
  "read_throughput client h ident accResp d r =
     (if \<not> isServerlessCapacityMode h accResp then
        (case GetMongoDBDatabaseThroughput client r
                (ResourceGroup ident) (DatabaseAccountName ident) (Name ident) of
           ((throughputResp, err), r') \<Rightarrow>
             after [Event ReadThroughput
                      (Call_GetMongoDBDatabaseThroughput
                         (ResourceGroup ident) (DatabaseAccountName ident) (Name ident))
                      err (tsg_Response throughputResp)
                      (ResourceGroup ident, DatabaseAccountName ident, Name ident)]
               (case err of
                  Some e \<Rightarrow>
                    if \<not> ResponseWasNotFound (tsg_Response throughputResp) then
                      (ReturnErr (Errorf
                         ''Error reading Throughput on Cosmos Mongo Database %q (Account: %q): %+v''
                         [Name ident, DatabaseAccountName ident] (Some e)), d, r', [])
                    else
                      (ReturnNil, d\<lparr>rd_throughput := None, rd_autoscale_settings := None\<rparr>, r', [])
                | None \<Rightarrow>
                    (ReturnNil, SetResourceDataThroughputFromResponse h throughputResp d, r', [])))
      else (ReturnNil, d, r, []))"

text \<open>Lines 225 to 232: the owning account is fetched and its identifier checked.\<close>

definition read_account ::
  "'r Client \<Rightarrow> helpers \<Rightarrow> MongodbDatabaseId \<Rightarrow> ResourceData \<Rightarrow> 'r \<Rightarrow> 'r run" where
  "read_account client h ident d r =
     (case AccountGet client r (ResourceGroup ident) (DatabaseAccountName ident) of
        ((accResp, err), r') \<Rightarrow>
          after [Event ReadAccount
                   (Call_AccountGet (ResourceGroup ident) (DatabaseAccountName ident))
                   err (acc_Response accResp)
                   (ResourceGroup ident, DatabaseAccountName ident, Name ident)]
            (case err of
               Some e \<Rightarrow>
                 (ReturnErr (Errorf ''reading CosmosDB Account %q (Resource Group %q): %+v''
                    [DatabaseAccountName ident, ResourceGroup ident] (Some e)), d, r', [])
             | None \<Rightarrow>
                 if acc_ID accResp = None \<or> acc_ID accResp = Some [] then
                   (ReturnErr (Errorf
                      ''cosmosDB Account %q (Resource Group %q) ID is empty or nil''
                      [DatabaseAccountName ident, ResourceGroup ident] None), d, r', [])
                 else read_throughput client h ident accResp d r'))"

text \<open>Lines 217 to 223: the identity is mirrored into the resource data.\<close>

definition read_mirror :: "MongodbDatabaseId \<Rightarrow> MongoDBDatabaseGetResults \<Rightarrow> ResourceData \<Rightarrow> ResourceData" where
  "read_mirror ident resp d =
     (let d1 = d\<lparr>rd_resource_group_name := Some (ResourceGroup ident),
                 rd_account_name := Some (DatabaseAccountName ident)\<rparr>
      in case db_MongoDBDatabaseGetProperties resp of
           None \<Rightarrow> d1
         | Some props \<Rightarrow>
             (case props_Resource props of
                None \<Rightarrow> d1
              | Some res \<Rightarrow> d1\<lparr>rd_name := res_ID res\<rparr>))"

definition resourceCosmosDbMongoDatabaseRead ::
  "'r Client \<Rightarrow> helpers \<Rightarrow> ResourceData \<Rightarrow> 'r \<Rightarrow> 'r run" where
  "resourceCosmosDbMongoDatabaseRead client h d r =
     (case MongodbDatabaseID h (rd_Id d) of
        Inl err \<Rightarrow> (ReturnErr (Passed err), d, r, [])
      | Inr ident \<Rightarrow>
          (case GetMongoDBDatabase client r
                  (ResourceGroup ident) (DatabaseAccountName ident) (Name ident) of
             ((resp, err), r') \<Rightarrow>
               after [Event ReadFetch
                        (Call_GetMongoDBDatabase
                           (ResourceGroup ident) (DatabaseAccountName ident) (Name ident))
                        err (db_Response resp)
                        (ResourceGroup ident, DatabaseAccountName ident, Name ident)]
                 (case err of
                    Some e \<Rightarrow>
                      if ResponseWasNotFound (db_Response resp) then
                        (ReturnNil, d\<lparr>rd_Id := []\<rparr>, r', [])
                      else
                        (ReturnErr (Errorf
                           ''Error reading Cosmos Mongo Database %q (Account: %q): %+v''
                           [Name ident, DatabaseAccountName ident] (Some e)), d, r', [])
                  | None \<Rightarrow> read_account client h ident (read_mirror ident resp d) r')))"

section \<open>Create\<close>

text \<open>Lines 98 to 115: the create payload.\<close>

definition create_payload ::
  "helpers \<Rightarrow> ResourceData \<Rightarrow> string \<Rightarrow> MongoDBDatabaseCreateUpdateParameters" where
  "create_payload h d name =
     (let db = \<lparr>Resource_ID = Some name, Options_Throughput = None,
                Options_AutoscaleSettings = None\<rparr>;
          db1 = (case GetOk_int (rd_throughput d) of
                   (throughput, hasThroughput) \<Rightarrow>
                     if hasThroughput then
                       (if throughput \<noteq> 0 then
                          db\<lparr>Options_Throughput := ConvertThroughputFromResourceData h throughput\<rparr>
                        else db)
                     else db)
      in case GetOk_list (rd_autoscale_settings d) of
           (_, hasAutoscaleSettings) \<Rightarrow>
             if hasAutoscaleSettings then
               db1\<lparr>Options_AutoscaleSettings := ExpandCosmosDbAutoscaleSettings h d\<rparr>
             else db1)"

text \<open>
  Lines 91 to 95, the probe found the database. The condition of line 91 is
  \<^verbatim>\<open>existing.ID == nil && *existing.ID == ""\<close>: its right operand is evaluated exactly when
  the pointer is nil, and dereferences it. The condition is \<open>None\<close> when that happens.
\<close>

definition create_existing ::
  "string \<Rightarrow> string \<Rightarrow> MongoDBDatabaseGetResults \<Rightarrow> ResourceData \<Rightarrow> 'r \<Rightarrow> 'r run" where
  "create_existing name account existing d r =
     (case (if db_ID existing = None
            then map_option (\<lambda>s. s = []) (db_ID existing)
            else Some False) of
        None \<Rightarrow> (NilDereference, d, r, [])
      | Some True \<Rightarrow>
          (ReturnErr (Errorf
             ''Error generating import ID for Cosmos Mongo Database %q (Account: %q)''
             [name, account] None), d, r, [])
      | Some False \<Rightarrow>
          (case db_ID existing of
             None \<Rightarrow> (NilDereference, d, r, [])
           | Some i \<Rightarrow>
               (ReturnErr (ImportAsExistsError ''azurerm_cosmosdb_mongo_database'' i), d, r, [])))"

text \<open>Lines 126 to 137: the re-fetch, the identifier, and the closing Read.\<close>

definition create_refetch ::
  "'r Client \<Rightarrow> helpers \<Rightarrow> string \<Rightarrow> string \<Rightarrow> string \<Rightarrow> ResourceData \<Rightarrow> 'r \<Rightarrow> 'r run" where
  "create_refetch client h name resourceGroup account d r =
     (case GetMongoDBDatabase client r resourceGroup account name of
        ((resp, err), r') \<Rightarrow>
          after [Event CreateRefetch (Call_GetMongoDBDatabase resourceGroup account name)
                   err (db_Response resp) (resourceGroup, account, name)]
            (case err of
               Some e \<Rightarrow>
                 (ReturnErr (Errorf
                    ''Error making get request for Cosmos Mongo Database %q (Account: %q): %+v''
                    [name, account] (Some e)), d, r', [])
             | None \<Rightarrow>
                 (case db_ID resp of
                    None \<Rightarrow>
                      (ReturnErr (Errorf
                         ''Error getting ID from Cosmos Mongo Database %q (Account: %q)''
                         [name, account] None), d, r', [])
                  | Some i \<Rightarrow> resourceCosmosDbMongoDatabaseRead client h (d\<lparr>rd_Id := i\<rparr>) r')))"

text \<open>Lines 98 to 124: the payload is built and submitted, and the future awaited.\<close>

definition create_submit ::
  "'r Client \<Rightarrow> helpers \<Rightarrow> string \<Rightarrow> string \<Rightarrow> string \<Rightarrow> ResourceData \<Rightarrow> 'r \<Rightarrow> 'r run" where
  "create_submit client h name resourceGroup account d r =
     (let db = create_payload h d name in
      case CreateUpdateMongoDBDatabase client r resourceGroup account name db of
        ((future, err), r') \<Rightarrow>
          after [Event CreateSubmit
                   (Call_CreateUpdateMongoDBDatabase resourceGroup account name db)
                   err (fut_Response future) (resourceGroup, account, name)]
            (case err of
               Some e \<Rightarrow>
                 (ReturnErr (Errorf
                    ''Error issuing create/update request for Cosmos Mongo Database %q (Account: %q): %+v''
                    [name, account] (Some e)), d, r', [])
             | None \<Rightarrow>
                 (case WaitForCompletionRef client r' future of
                    (werr, r'') \<Rightarrow>
                      after [Event CreateWait (Call_WaitForCompletionRef future)
                               werr (fut_Response future) (resourceGroup, account, name)]
                        (case werr of
                           Some e \<Rightarrow>
                             (ReturnErr (Errorf
                                ''Error waiting on create/update future for Cosmos Mongo Database %q (Account: %q): %+v''
                                [name, account] (Some e)), d, r'', [])
                         | None \<Rightarrow>
                             create_refetch client h name resourceGroup account d r''))))"

definition resourceCosmosDbMongoDatabaseCreate ::
  "'r Client \<Rightarrow> helpers \<Rightarrow> ResourceData \<Rightarrow> 'r \<Rightarrow> 'r run" where
  "resourceCosmosDbMongoDatabaseCreate client h d r =
     (let name = Get_string (rd_name d);
          resourceGroup = Get_string (rd_resource_group_name d);
          account = Get_string (rd_account_name d)
      in case GetMongoDBDatabase client r resourceGroup account name of
           ((existing, err), r') \<Rightarrow>
             after [Event CreateProbe (Call_GetMongoDBDatabase resourceGroup account name)
                      err (db_Response existing) (resourceGroup, account, name)]
               (case err of
                  Some e \<Rightarrow>
                    if \<not> ResponseWasNotFound (db_Response existing) then
                      (ReturnErr (Errorf
                         ''Error checking for presence of creating Cosmos Mongo Database %q (Account: %q): %+v''
                         [name, account] (Some e)), d, r', [])
                    else create_submit client h name resourceGroup account d r'
                | None \<Rightarrow> create_existing name account existing d r'))"

section \<open>Update\<close>

text \<open>Lines 188 to 192: the re-fetch and the closing Read.\<close>

definition update_refetch ::
  "'r Client \<Rightarrow> helpers \<Rightarrow> MongodbDatabaseId \<Rightarrow> ResourceData \<Rightarrow> 'r \<Rightarrow> 'r run" where
  "update_refetch client h ident d r =
     (case GetMongoDBDatabase client r
             (ResourceGroup ident) (DatabaseAccountName ident) (Name ident) of
        ((resp, err), r') \<Rightarrow>
          after [Event UpdateRefetch
                   (Call_GetMongoDBDatabase
                      (ResourceGroup ident) (DatabaseAccountName ident) (Name ident))
                   err (db_Response resp)
                   (ResourceGroup ident, DatabaseAccountName ident, Name ident)]
            (case err of
               Some e \<Rightarrow>
                 (ReturnErr (Errorf
                    ''Error making get request for Cosmos Mongo Database %q (Account: %q): %+v''
                    [Name ident, DatabaseAccountName ident] (Some e)), d, r', [])
             | None \<Rightarrow> resourceCosmosDbMongoDatabaseRead client h d r'))"

text \<open>Lines 183 to 186: the throughput future is awaited.\<close>

definition update_throughput_wait ::
  "'r Client \<Rightarrow> helpers \<Rightarrow> MongodbDatabaseId \<Rightarrow> Future \<Rightarrow> go_error option
    \<Rightarrow> ResourceData \<Rightarrow> 'r \<Rightarrow> 'r run" where
  "update_throughput_wait client h ident throughputFuture err d r =
     (case future_wait client r throughputFuture err of
        (werr, r') \<Rightarrow>
          after [Event UpdateThroughputWait
                   (Call_WaitForCompletionRef throughputFuture)
                   werr (fut_Response throughputFuture)
                   (ResourceGroup ident, DatabaseAccountName ident, Name ident)]
            (case werr of
               Some e \<Rightarrow>
                 (ReturnErr (Errorf
                    ''Error waiting on ThroughputUpdate future for Cosmos Mongo Database %q (Account: %q, Database %q): %+v''
                    [Name ident, DatabaseAccountName ident, Name ident]
                    (Some e)), d, r', [])
             | None \<Rightarrow> update_refetch client h ident d r'))"

text \<open>
  Lines 173 to 182: the throughput update. \<^verbatim>\<open>*throughputParameters\<close> dereferences what the
  helper returned. On an error of the submission, line 177 evaluates
  \<^verbatim>\<open>throughputFuture.Response()\<close>, which dereferences nil when the future holds no
  response; the error returns only when the response was not-found, otherwise the code
  goes on to wait on the future it got.
\<close>

definition update_throughput ::
  "'r Client \<Rightarrow> helpers \<Rightarrow> MongodbDatabaseId \<Rightarrow> ResourceData \<Rightarrow> 'r \<Rightarrow> 'r run" where
  "update_throughput client h ident d r =
     (if HasThroughputChange h d then
        (case ExpandCosmosDBThroughputSettingsUpdateParameters h d of
           None \<Rightarrow> (NilDereference, d, r, [])
         | Some throughputParameters \<Rightarrow>
             (case UpdateMongoDBDatabaseThroughput client r
                     (ResourceGroup ident) (DatabaseAccountName ident) (Name ident)
                     throughputParameters of
                ((throughputFuture, err), r') \<Rightarrow>
                  after [Event UpdateThroughputSubmit
                           (Call_UpdateMongoDBDatabaseThroughput
                              (ResourceGroup ident) (DatabaseAccountName ident) (Name ident)
                              throughputParameters)
                           err (fut_Response throughputFuture)
                           (ResourceGroup ident, DatabaseAccountName ident, Name ident)]
                    (case err of
                       Some e \<Rightarrow>
                         (case fut_Response throughputFuture of
                            None \<Rightarrow> (NilDereference, d, r', [])
                          | Some status \<Rightarrow>
                              if WasNotFound (Some status) then
                                (ReturnErr (Errorf
                                   (''Error setting Throughput for Cosmos MongoDB Database %q (Account: %q): %+v - '' @
                                    ''If the collection has not been created with an initial throughput, you cannot configure it later.'')
                                   [Name ident, DatabaseAccountName ident] (Some e)), d, r', [])
                              else update_throughput_wait client h ident throughputFuture err d r')
                     | None \<Rightarrow> update_throughput_wait client h ident throughputFuture err d r')))
      else update_refetch client h ident d r)"

text \<open>Lines 155 to 162: the payload of the base create/update request of Update.\<close>

definition update_payload :: "MongodbDatabaseId \<Rightarrow> MongoDBDatabaseCreateUpdateParameters" where
  "update_payload ident =
     \<lparr>Resource_ID = Some (Name ident), Options_Throughput = None,
      Options_AutoscaleSettings = None\<rparr>"

definition resourceCosmosDbMongoDatabaseUpdate ::
  "'r Client \<Rightarrow> helpers \<Rightarrow> ResourceData \<Rightarrow> 'r \<Rightarrow> 'r run" where
  "resourceCosmosDbMongoDatabaseUpdate client h d r =
     (case MongodbDatabaseID h (rd_Id d) of
        Inl err \<Rightarrow> (ReturnErr (Passed err), d, r, [])
      | Inr ident \<Rightarrow>
          (case CheckForChangeFromAutoscaleAndManualThroughput h d of
             Some err \<Rightarrow>
               (ReturnErr (Errorf
                  ''Error updating Cosmos Mongo Database %q (Account: %q) - %+v''
                  [Name ident, DatabaseAccountName ident] (Some err)), d, r, [])
           | None \<Rightarrow>
               (let db = update_payload ident in
                case CreateUpdateMongoDBDatabase client r
                       (ResourceGroup ident) (DatabaseAccountName ident) (Name ident) db of
                  ((future, err), r') \<Rightarrow>
                    after [Event UpdateSubmit
                             (Call_CreateUpdateMongoDBDatabase
                                (ResourceGroup ident) (DatabaseAccountName ident) (Name ident) db)
                             err (fut_Response future)
                             (ResourceGroup ident, DatabaseAccountName ident, Name ident)]
                      (case err of
                         Some e \<Rightarrow>
                           (ReturnErr (Errorf
                              ''Error issuing create/update request for Cosmos Mongo Database %q (Account: %q): %+v''
                              [Name ident, DatabaseAccountName ident] (Some e)), d, r', [])
                       | None \<Rightarrow>
                           (case WaitForCompletionRef client r' future of
                              (werr, r'') \<Rightarrow>
                                after [Event UpdateWait (Call_WaitForCompletionRef future)
                                         werr (fut_Response future)
                                         (ResourceGroup ident, DatabaseAccountName ident, Name ident)]
                                  (case werr of
                                     Some e \<Rightarrow>
                                       (ReturnErr (Errorf
                                          ''Error waiting on create/update future for Cosmos Mongo Database %q (Account: %q): %+v''
                                          [Name ident, DatabaseAccountName ident] (Some e)),
                                        d, r'', [])
                                   | None \<Rightarrow> update_throughput client h ident d r''))))))"

section \<open>Delete\<close>

text \<open>Lines 269 to 274: the delete future is awaited.\<close>

definition delete_wait ::
  "'r Client \<Rightarrow> MongodbDatabaseId \<Rightarrow> Future \<Rightarrow> go_error option \<Rightarrow> ResourceData \<Rightarrow> 'r
    \<Rightarrow> 'r run" where
  "delete_wait client ident future err d r =
     (case future_wait client r future err of
        (werr, r') \<Rightarrow>
          after [Event DeleteWait (Call_WaitForCompletionRef future)
                   werr (fut_Response future)
                   (ResourceGroup ident, DatabaseAccountName ident, Name ident)]
            (case werr of
               Some e \<Rightarrow>
                 (ReturnErr (Errorf
                    ''Error waiting on delete future for Cosmos Mongo Database %q (Account: %q): %+v''
                    [Name ident, DatabaseAccountName ident] (Some e)), d, r', [])
             | None \<Rightarrow> (ReturnNil, d, r', [])))"

text \<open>
  Lines 257 to 268. On an error of the submission, line 264 evaluates
  \<^verbatim>\<open>future.Response()\<close>, which dereferences nil when the future holds no response; the
  error returns unless the response was not-found. The future is awaited either way. The
  resource data is not touched.
\<close>

definition resourceCosmosDbMongoDatabaseDelete ::
  "'r Client \<Rightarrow> helpers \<Rightarrow> ResourceData \<Rightarrow> 'r \<Rightarrow> 'r run" where
  "resourceCosmosDbMongoDatabaseDelete client h d r =
     (case MongodbDatabaseID h (rd_Id d) of
        Inl err \<Rightarrow> (ReturnErr (Passed err), d, r, [])
      | Inr ident \<Rightarrow>
          (case DeleteMongoDBDatabase client r
                  (ResourceGroup ident) (DatabaseAccountName ident) (Name ident) of
             ((future, err), r') \<Rightarrow>
               after [Event DeleteSubmit
                        (Call_DeleteMongoDBDatabase
                           (ResourceGroup ident) (DatabaseAccountName ident) (Name ident))
                        err (fut_Response future)
                        (ResourceGroup ident, DatabaseAccountName ident, Name ident)]
                 (case err of
                    Some e \<Rightarrow>
                      (case fut_Response future of
                         None \<Rightarrow> (NilDereference, d, r', [])
                       | Some status \<Rightarrow>
                           if \<not> WasNotFound (Some status) then
                             (ReturnErr (Errorf
                                ''Error deleting Cosmos Mongo Database %q (Account: %q): %+v''
                                [Name ident, DatabaseAccountName ident] (Some e)), d, r', [])
                           else delete_wait client ident future err d r')
                  | None \<Rightarrow> delete_wait client ident future err d r')))"

section \<open>The vocabulary of the properties\<close>

text \<open>The operation returned an error (it neither returned nil nor panicked).\<close>

definition is_error :: "outcome \<Rightarrow> bool" where
  "is_error out = (case out of ReturnErr _ \<Rightarrow> True | _ \<Rightarrow> False)"

text \<open>A call of \<^verbatim>\<open>GetMongoDBDatabaseThroughput\<close>, the per-database throughput query.\<close>

definition is_throughput_query :: "event \<Rightarrow> bool" where
  "is_throughput_query ev =
     (case ev_call ev of Call_GetMongoDBDatabaseThroughput _ _ _ \<Rightarrow> True | _ \<Rightarrow> False)"

text \<open>The payloads of the create/update requests among a list of calls, in order.\<close>

fun payload_of :: "event \<Rightarrow> MongoDBDatabaseCreateUpdateParameters option" where
  "payload_of (Event _ (Call_CreateUpdateMongoDBDatabase _ _ _ db) _ _ _) = Some db"
| "payload_of _ = None"

fun submitted_payloads :: "event list \<Rightarrow> MongoDBDatabaseCreateUpdateParameters list" where
  "submitted_payloads [] = []"
| "submitted_payloads (ev # evs) =
     (case payload_of ev of
        None \<Rightarrow> submitted_payloads evs
      | Some db \<Rightarrow> db # submitted_payloads evs)"

text \<open>
  The call sites whose error handling inspects the response for not-found: lines 87, 208,
  238, 264 and 177.
\<close>

fun tests_not_found :: "site \<Rightarrow> bool" where
  "tests_not_found CreateProbe = True"
| "tests_not_found ReadFetch = True"
| "tests_not_found ReadThroughput = True"
| "tests_not_found DeleteSubmit = True"
| "tests_not_found UpdateThroughputSubmit = True"
| "tests_not_found _ = False"

text \<open>A failure the operation classifies as not-found.\<close>

definition classified_not_found :: "event \<Rightarrow> bool" where
  "classified_not_found ev =
     (tests_not_found (ev_site ev) \<and> ResponseWasNotFound (ev_Response ev))"

text \<open>
  A remote call that returned an error which the operation does not classify as
  not-found. Two kinds of failure are left out. A delete submission that failed without
  a response: line 264 dereferences nil there. And the submission of the throughput
  update (line 175), which has a property of its own below.
\<close>

definition unhandled_failure :: "event \<Rightarrow> bool" where
  "unhandled_failure ev =
     (ev_err ev \<noteq> None \<and> \<not> classified_not_found ev \<and> ev_site ev \<noteq> UpdateThroughputSubmit
      \<and> \<not> (ev_site ev = DeleteSubmit \<and> ev_Response ev = None))"

text \<open>A submission of the throughput update that failed with a response.\<close>

definition throughput_submission_failure :: "event \<Rightarrow> bool" where
  "throughput_submission_failure ev =
     (ev_site ev = UpdateThroughputSubmit \<and> ev_err ev \<noteq> None \<and> ev_Response ev \<noteq> None)"

text \<open>
  The names an error is wrapped with: the database name and the account name, and for
  the account fetch of Read the account name and the resource group.
\<close>

definition context_of :: "event \<Rightarrow> string list" where
  "context_of ev =
     (case ev_scope ev of
        (resourceGroup, account, name) \<Rightarrow>
          if ev_site ev = ReadAccount then [account, resourceGroup] else [name, account])"

text \<open>The operation returned an error that wraps a failure, with those names first.\<close>

definition reported :: "outcome \<Rightarrow> event \<Rightarrow> bool" where
  "reported out ev =
     (case out of
        ReturnErr (Errorf f args cause) \<Rightarrow> cause \<noteq> None \<and> take 2 args = context_of ev
      | _ \<Rightarrow> False)"

text \<open>The operation returned the error of the call, wrapped with those names first.\<close>

definition surfaces :: "outcome \<Rightarrow> event \<Rightarrow> bool" where
  "surfaces out ev =
     (case out of
        ReturnErr (Errorf f args cause) \<Rightarrow>
          cause \<noteq> None \<and> cause = ev_err ev \<and> take 2 args = context_of ev
      | _ \<Rightarrow> False)"

text \<open>
  Every such failure among the calls of a run is the error the run returned, and a run
  whose throughput submission failed with a response returned a wrapped error.
\<close>

definition failures_surface :: "'r run \<Rightarrow> bool" where
  "failures_surface x =
     (\<forall>ev \<in> set (calls_of x).
        (unhandled_failure ev \<longrightarrow> surfaces (outcome_of x) ev)
        \<and> (throughput_submission_failure ev \<longrightarrow> reported (outcome_of x) ev))"

text \<open>
  Modelled from the spec: the schema of \<^verbatim>\<open>autoscale_settings\<close>
  (\<^verbatim>\<open>common.DatabaseAutoscaleSettingsSchema\<close>, line 71) is not in the source file. The spec's
  data model makes the capacity of the desired configuration a oneof (fixed throughput,
  autoscale, or unset): at most one of the two fields is set.
\<close>

definition capacity_oneof :: "ResourceData \<Rightarrow> bool" where
  "capacity_oneof d = (rd_throughput d = None \<or> rd_autoscale_settings d = None)"

subsection \<open>Concrete inputs\<close>

text \<open>
  A database \<^verbatim>\<open>orders\<close> of the account \<^verbatim>\<open>acct1\<close> in the resource group \<^verbatim>\<open>rg1\<close>, an instance
  of the helpers, and a small remote, for evaluating the operations at concrete inputs.
  The remote keeps the identifier of the stored database (if there is one) and the
  capabilities of the account.
\<close>

definition example_id :: string where
  "example_id = ''/subscriptions/sub1/resourceGroups/rg1/providers/Microsoft.DocumentDB/databaseAccounts/acct1/mongodbDatabases/orders''"

definition example_ident :: MongodbDatabaseId where
  "example_ident = \<lparr>ResourceGroup = ''rg1'', DatabaseAccountName = ''acct1'', Name = ''orders''\<rparr>"

definition example_helpers :: helpers where
  "example_helpers =
     \<lparr>MongodbDatabaseID =
        (\<lambda>s. if s = example_id then Inr example_ident else Inl ''cannot parse the identifier''),
      isServerlessCapacityMode = (\<lambda>acc. ''EnableServerless'' \<in> set (acc_Capabilities acc)),
      CheckForChangeFromAutoscaleAndManualThroughput = (\<lambda>d. None),
      HasThroughputChange =
        (\<lambda>d. \<not> (rd_throughput d = None \<and> rd_autoscale_settings d = None)),
      ExpandCosmosDBThroughputSettingsUpdateParameters =
        (\<lambda>d. Some \<lparr>tsu_Throughput = map_option word_of_int (rd_throughput d),
                    tsu_AutoscaleSettings = None\<rparr>),
      ConvertThroughputFromResourceData = (\<lambda>n. Some (word_of_int n)),
      ExpandCosmosDbAutoscaleSettings =
        (\<lambda>d. case rd_autoscale_settings d of
                Some (m # _) \<Rightarrow> Some \<lparr>as_MaxThroughput = Some (word_of_int m)\<rparr>
              | _ \<Rightarrow> None),
      SetResourceDataThroughputFromResponse =
        (\<lambda>resp d. d\<lparr>rd_throughput := map_option sint (tsg_Throughput resp)\<rparr>)\<rparr>"

record remote =
  rm_database :: "string option"
  rm_capabilities :: "string list"

definition example_client :: "remote Client" where
  "example_client =
     \<lparr>GetMongoDBDatabase = (\<lambda>r rg a n.
        case rm_database r of
          None \<Rightarrow> ((\<lparr>db_Response = Some 404, db_ID = None,
                      db_MongoDBDatabaseGetProperties = None\<rparr>, Some ''StatusCode=404''), r)
        | Some i \<Rightarrow> ((\<lparr>db_Response = Some 200, db_ID = Some i,
                        db_MongoDBDatabaseGetProperties =
                          Some \<lparr>props_Resource = Some \<lparr>res_ID = Some n\<rparr>\<rparr>\<rparr>, None), r)),
      CreateUpdateMongoDBDatabase = (\<lambda>r rg a n db.
        ((\<lparr>fut_Response = Some 202, fut_token = 0\<rparr>, None),
         r\<lparr>rm_database := Some (''/subscriptions/sub1/resourceGroups/'' @ rg
            @ ''/providers/Microsoft.DocumentDB/databaseAccounts/'' @ a
            @ ''/mongodbDatabases/'' @ n)\<rparr>)),
      UpdateMongoDBDatabaseThroughput = (\<lambda>r rg a n p.
        ((\<lparr>fut_Response = Some 202, fut_token = 1\<rparr>, None), r)),
      GetMongoDBDatabaseThroughput = (\<lambda>r rg a n.
        ((\<lparr>tsg_Response = Some 200, tsg_Throughput = Some 400,
           tsg_AutoscaleSettings = None\<rparr>, None), r)),
      DeleteMongoDBDatabase = (\<lambda>r rg a n.
        ((\<lparr>fut_Response = Some 202, fut_token = 2\<rparr>, None), r\<lparr>rm_database := None\<rparr>)),
      WaitForCompletionRef = (\<lambda>r f. (None, r)),
      AccountGet = (\<lambda>r rg a.
        ((\<lparr>acc_Response = Some 200,
           acc_ID = Some ''/subscriptions/sub1/resourceGroups/rg1/providers/Microsoft.DocumentDB/databaseAccounts/acct1'',
           acc_Capabilities = rm_capabilities r\<rparr>, None), r))\<rparr>"

text \<open>The resource data of the stored database, and the configuration it is created from.\<close>

definition example_data :: ResourceData where
  "example_data =
     \<lparr>rd_Id = example_id, rd_name = Some ''orders'', rd_resource_group_name = Some ''rg1'',
      rd_account_name = Some ''acct1'', rd_throughput = Some 400,
      rd_autoscale_settings = None\<rparr>"

definition example_config :: ResourceData where
  "example_config =
     \<lparr>rd_Id = [], rd_name = Some ''orders'', rd_resource_group_name = Some ''rg1'',
      rd_account_name = Some ''acct1'', rd_throughput = Some 400,
      rd_autoscale_settings = None\<rparr>"

definition remote_present :: remote where
  "remote_present = \<lparr>rm_database = Some example_id, rm_capabilities = []\<rparr>"

definition remote_absent :: remote where
  "remote_absent = \<lparr>rm_database = None, rm_capabilities = []\<rparr>"

definition remote_serverless :: remote where
  "remote_serverless = \<lparr>rm_database = Some example_id, rm_capabilities = [''EnableServerless'']\<rparr>"

text \<open>A remote whose records carry no identifier, and one that stores the empty
  identifier.\<close>

definition nil_id_client :: "remote Client" where
  "nil_id_client = example_client\<lparr>GetMongoDBDatabase := \<lambda>r rg a n.
     case rm_database r of
       None \<Rightarrow> ((\<lparr>db_Response = Some 404, db_ID = None,
                   db_MongoDBDatabaseGetProperties = None\<rparr>, Some ''StatusCode=404''), r)
     | Some i \<Rightarrow> ((\<lparr>db_Response = Some 200, db_ID = None,
                     db_MongoDBDatabaseGetProperties = None\<rparr>, None), r)\<rparr>"

definition empty_id_client :: "remote Client" where
  "empty_id_client = example_client\<lparr>CreateUpdateMongoDBDatabase := \<lambda>r rg a n db.
     ((\<lparr>fut_Response = Some 202, fut_token = 0\<rparr>, None), r\<lparr>rm_database := Some []\<rparr>)\<rparr>"




subsection \<open>The identifier codec\<close>

text \<open>
  Modelled from the spec: the identifier codec (package \<^verbatim>\<open>parse\<close>, called at lines 145, 201
  and 257) is not in the source file. The spec's error taxonomy (section 7).
\<close>

datatype ErrorKind =
    AlreadyExists | MalformedIdentifier | MigrationFailure | ConflictingCapacityMode
  | RemoteReadFailure | InvariantViolation

text \<open>
  Modelled from the spec: the identifier string format is
  \<^verbatim>\<open>.../resourceGroups/{rg}/.../databaseAccounts/{account}/.../mongodbDatabases/{name}\<close> with
  exact path-segment literals. The three elided runs of literal segments are not given
  by the spec; they are the fields of a layout, and the theorems hold for every layout.
\<close>

record layout =
  before_resourceGroups :: "string list"
  before_databaseAccounts :: "string list"
  before_mongodbDatabases :: "string list"

text \<open>
  Modelled from the spec: \<^verbatim>\<open>Build(resourceGroup, accountName, databaseName)\<close>, pure
  construction. The identifier is the composite key of resource group, account name and
  database name, with the field names the source reads (\<^verbatim>\<open>id.ResourceGroup\<close>,
  \<^verbatim>\<open>id.DatabaseAccountName\<close>, \<^verbatim>\<open>id.Name\<close>).
\<close>

definition Build :: "string \<Rightarrow> string \<Rightarrow> string \<Rightarrow> MongodbDatabaseId" where
  "Build resourceGroup accountName databaseName =
     \<lparr>ResourceGroup = resourceGroup, DatabaseAccountName = accountName, Name = databaseName\<rparr>"

text \<open>Modelled from the spec: the path segments of an identifier in a layout.\<close>

definition segments :: "layout \<Rightarrow> MongodbDatabaseId \<Rightarrow> string list" where
  "segments L ident =
     before_resourceGroups L @ [''resourceGroups'', ResourceGroup ident]
     @ before_databaseAccounts L @ [''databaseAccounts'', DatabaseAccountName ident]
     @ before_mongodbDatabases L @ [''mongodbDatabases'', Name ident]"

text \<open>Modelled from the spec: a path is its segments joined by \<^verbatim>\<open>/\<close>, and split at every
  \<^verbatim>\<open>/\<close>.\<close>

fun join_path :: "string list \<Rightarrow> string" where
  "join_path [] = []"
| "join_path [s] = s"
| "join_path (s # t # ss) = s @ CHR ''/'' # join_path (t # ss)"

fun split_path :: "string \<Rightarrow> string list" where
  "split_path [] = [[]]"
| "split_path (c # cs) =
     (if c = CHR ''/'' then [] # split_path cs
      else (case split_path cs of
              [] \<Rightarrow> [[c]]
            | seg # segs \<Rightarrow> (c # seg) # segs))"

text \<open>What is left of a list after a given prefix, if it starts with it.\<close>

fun strip_prefix :: "'a list \<Rightarrow> 'a list \<Rightarrow> 'a list option" where
  "strip_prefix [] ys = Some ys"
| "strip_prefix (x # xs) [] = None"
| "strip_prefix (x # xs) (y # ys) = (if x = y then strip_prefix xs ys else None)"

text \<open>Modelled from the spec: \<^verbatim>\<open>Serialize\<close>, deterministic.\<close>

definition Serialize :: "layout \<Rightarrow> MongodbDatabaseId \<Rightarrow> string" where
  "Serialize L ident = join_path (segments L ident)"

text \<open>
  Modelled from the spec: \<^verbatim>\<open>Parse\<close> fails with \<^verbatim>\<open>MalformedIdentifier\<close> if the string does not
  contain exactly the expected component path; the three components are non-empty.
\<close>

definition Parse :: "layout \<Rightarrow> string \<Rightarrow> ErrorKind + MongodbDatabaseId" where
  "Parse L s =
     (case strip_prefix (before_resourceGroups L @ [''resourceGroups'']) (split_path s) of
        Some (resourceGroup # rest) \<Rightarrow>
          (case strip_prefix (before_databaseAccounts L @ [''databaseAccounts'']) rest of
             Some (accountName # rest') \<Rightarrow>
               (case strip_prefix (before_mongodbDatabases L @ [''mongodbDatabases'']) rest' of
                  Some [databaseName] \<Rightarrow>
                    if resourceGroup \<noteq> [] \<and> accountName \<noteq> [] \<and> databaseName \<noteq> []
                    then Inr (Build resourceGroup accountName databaseName)
                    else Inl MalformedIdentifier
                | _ \<Rightarrow> Inl MalformedIdentifier)
           | _ \<Rightarrow> Inl MalformedIdentifier)
      | _ \<Rightarrow> Inl MalformedIdentifier)"

text \<open>A string that can stand as one path segment.\<close>

definition slash_free :: "string \<Rightarrow> bool" where
  "slash_free s = (CHR ''/'' \<notin> set s)"

text \<open>A layout whose literal segments are path segments.\<close>

definition layout_ok :: "layout \<Rightarrow> bool" where
  "layout_ok L =
     (list_all slash_free (before_resourceGroups L)
      \<and> list_all slash_free (before_databaseAccounts L)
      \<and> list_all slash_free (before_mongodbDatabases L))"

definition nonempty_fields :: "MongodbDatabaseId \<Rightarrow> bool" where
  "nonempty_fields ident =
     (ResourceGroup ident \<noteq> [] \<and> DatabaseAccountName ident \<noteq> [] \<and> Name ident \<noteq> [])"

text \<open>A layout for concrete inputs: the resource path of the remote API, in a subscription
  \<^verbatim>\<open>sub1\<close>.\<close>

definition azure_layout :: layout where
  "azure_layout =
     \<lparr>before_resourceGroups = [[], ''subscriptions'', ''sub1''],
      before_databaseAccounts = [''providers'', ''Microsoft.DocumentDB''],
      before_mongodbDatabases = []\<rparr>"

section \<open>Auxiliary facts\<close>

lemma after_simps [simp]:
  "outcome_of (after evs x) = outcome_of x"
  "data_of (after evs x) = data_of x"
  "calls_of (after evs x) = evs @ calls_of x"
  by (simp_all add: after_def outcome_of_def data_of_def calls_of_def split: prod.splits)

lemma run_simps [simp]:
  "outcome_of (out, d, r, evs) = out"
  "data_of (out, d, r, evs) = d"
  "calls_of (out, d, r, evs) = evs"
  by (simp_all add: outcome_of_def data_of_def calls_of_def)

lemma read_throughput_error_data:
  "is_error (outcome_of (read_throughput client h ident accResp d r)) \<Longrightarrow>
   data_of (read_throughput client h ident accResp d r) = d"
  by (auto simp add: read_throughput_def is_error_def split: prod.splits option.splits if_splits)

lemma read_account_error_data:
  "is_error (outcome_of (read_account client h ident d r)) \<Longrightarrow>
   data_of (read_account client h ident d r) = d"
  by (auto simp add: read_account_def is_error_def read_throughput_error_data
        split: prod.splits option.splits if_splits)

lemma rd_Id_read_mirror [simp]: "rd_Id (read_mirror ident resp d) = rd_Id d"
  by (simp add: read_mirror_def Let_def split: option.splits)

lemma read_mirror_capacity [simp]:
  "rd_throughput (read_mirror ident resp d) = rd_throughput d"
  "rd_autoscale_settings (read_mirror ident resp d) = rd_autoscale_settings d"
  by (simp_all add: read_mirror_def Let_def split: option.splits)

lemma example_parse: "MongodbDatabaseID example_helpers (rd_Id example_data) = Inr example_ident"
  by (simp add: example_helpers_def example_data_def)

lemma payloads_read_throughput [simp]:
  "submitted_payloads (calls_of (read_throughput client h ident accResp d r)) = []"
  by (simp add: read_throughput_def split: prod.splits option.splits)

lemma payloads_read_account [simp]:
  "submitted_payloads (calls_of (read_account client h ident d r)) = []"
  by (simp add: read_account_def split: prod.splits option.splits)

lemma payloads_Read [simp]:
  "submitted_payloads (calls_of (resourceCosmosDbMongoDatabaseRead client h d r)) = []"
  by (simp add: resourceCosmosDbMongoDatabaseRead_def split: prod.splits option.splits sum.splits)

lemma payloads_update_refetch [simp]:
  "submitted_payloads (calls_of (update_refetch client h ident d r)) = []"
  by (simp add: update_refetch_def split: prod.splits option.splits)

lemma payloads_update_throughput_wait [simp]:
  "submitted_payloads (calls_of (update_throughput_wait client h ident future err d r)) = []"
  by (simp add: update_throughput_wait_def split: prod.splits option.splits)

lemma payloads_update_throughput [simp]:
  "submitted_payloads (calls_of (update_throughput client h ident d r)) = []"
  by (simp add: update_throughput_def split: prod.splits option.splits)

lemma payloads_create_refetch [simp]:
  "submitted_payloads (calls_of (create_refetch client h name rg account d r)) = []"
  by (simp add: create_refetch_def split: prod.splits option.splits)

lemma failures_surface_nil [simp]: "failures_surface (out, d, r, [])"
  by (simp add: failures_surface_def)

















lemma Read_error_keeps_Id:
  "is_error (outcome_of (resourceCosmosDbMongoDatabaseRead client h d r)) \<Longrightarrow>
   rd_Id (data_of (resourceCosmosDbMongoDatabaseRead client h d r)) = rd_Id d"
  by (auto simp add: resourceCosmosDbMongoDatabaseRead_def is_error_def
        read_account_error_data
        split: prod.splits option.splits if_splits sum.splits)

lemma split_path_not_Nil [simp]: "split_path s \<noteq> []"
  by (induction s) (auto split: list.splits)

lemma join_split_path [simp]: "join_path (split_path s) = s"
proof (induction s)
  case Nil
  then show ?case by simp
next
  case (Cons c cs)
  obtain seg segs where sp: "split_path cs = seg # segs"
    by (cases "split_path cs") auto
  with Cons show ?case
    by (cases segs) auto
qed

lemma split_path_slash_free: "slash_free s \<Longrightarrow> split_path s = [s]"
  by (induction s) (auto simp add: slash_free_def)

lemma split_path_append:
  "slash_free s \<Longrightarrow> split_path (s @ CHR ''/'' # t) = s # split_path t"
  by (induction s) (auto simp add: slash_free_def)

lemma split_join_path:
  "segs \<noteq> [] \<Longrightarrow> list_all slash_free segs \<Longrightarrow> split_path (join_path segs) = segs"
  by (induction segs rule: join_path.induct)
     (auto simp add: split_path_slash_free split_path_append)

lemma strip_prefix_append [simp]: "strip_prefix p (p @ ys) = Some ys"
  by (induction p) auto

lemma strip_prefix_Some: "strip_prefix p xs = Some ys \<Longrightarrow> xs = p @ ys"
  by (induction p xs rule: strip_prefix.induct) (auto split: if_splits)

lemma strip_prefix_append2 [simp]: "strip_prefix (p @ q) (p @ ys) = strip_prefix q ys"
  by (induction p) auto

lemma Parse_segments:
  assumes "nonempty_fields ident" and "split_path s = segments L ident"
  shows "Parse L s = Inr ident"
  using assms
  by (simp add: Parse_def segments_def nonempty_fields_def Build_def)

lemma Parse_Inr_segments:
  assumes "Parse L s = Inr ident"
  shows "split_path s = segments L ident \<and> nonempty_fields ident"
  using assms
  by (auto simp add: Parse_def segments_def nonempty_fields_def Build_def
        split: option.splits list.splits if_splits dest!: strip_prefix_Some)

lemma Parse_Inr_Serialize:
  assumes "Parse L s = Inr ident"
  shows "s = Serialize L ident \<and> nonempty_fields ident"
proof -
  from assms have seg: "split_path s = segments L ident" and ne: "nonempty_fields ident"
    using Parse_Inr_segments by blast+
  have "join_path (split_path s) = s" by simp
  with seg ne show ?thesis by (simp add: Serialize_def)
qed

lemma Parse_Inl: "Parse L s = Inl e \<Longrightarrow> e = MalformedIdentifier"
  by (auto simp add: Parse_def split: option.splits list.splits if_splits)

lemma segments_slash_free:
  assumes "layout_ok L" and "slash_free (ResourceGroup ident)"
    and "slash_free (DatabaseAccountName ident)" and "slash_free (Name ident)"
  shows "list_all slash_free (segments L ident)"
  using assms by (simp add: layout_ok_def segments_def slash_free_def)

section \<open>Read against a serverless account\<close>

text \<open>
  Claim C1, as the code has it. When Read reaches the capacity step with an account that
  \<^verbatim>\<open>isServerlessCapacityMode\<close> classifies as serverless, it returns nil, it has issued no
  \<^verbatim>\<open>GetMongoDBDatabaseThroughput\<close> call, and the \<^verbatim>\<open>throughput\<close> and \<^verbatim>\<open>autoscale_settings\<close>
  fields are what they were before the Read: the guard of line 235 skips the whole block,
  also the two \<^verbatim>\<open>d.Set(..., nil)\<close> of lines 241 and 242.
\<close>

theorem Read_serverless_skips_query_keeps_capacity:
  assumes "MongodbDatabaseID h (rd_Id d) = Inr ident"
    and "GetMongoDBDatabase client r (ResourceGroup ident) (DatabaseAccountName ident) (Name ident)
           = ((resp, None), r1)"
    and "AccountGet client r1 (ResourceGroup ident) (DatabaseAccountName ident)
           = ((accResp, None), r2)"
    and "acc_ID accResp \<noteq> None" and "acc_ID accResp \<noteq> Some []"
    and "isServerlessCapacityMode h accResp"
  shows "outcome_of (resourceCosmosDbMongoDatabaseRead client h d r) = ReturnNil
       \<and> filter is_throughput_query (calls_of (resourceCosmosDbMongoDatabaseRead client h d r)) = []
       \<and> rd_throughput (data_of (resourceCosmosDbMongoDatabaseRead client h d r)) = rd_throughput d
       \<and> rd_autoscale_settings (data_of (resourceCosmosDbMongoDatabaseRead client h d r))
           = rd_autoscale_settings d"
  using assms
  by (simp add: resourceCosmosDbMongoDatabaseRead_def read_account_def read_throughput_def
        is_throughput_query_def)

text \<open>The theorem at a serverless account, the stored throughput being 400.\<close>

theorem Read_serverless_witness:
  "outcome_of (resourceCosmosDbMongoDatabaseRead example_client example_helpers
       example_data remote_serverless) = ReturnNil
   \<and> filter is_throughput_query (calls_of (resourceCosmosDbMongoDatabaseRead example_client
       example_helpers example_data remote_serverless)) = []
   \<and> rd_throughput (data_of (resourceCosmosDbMongoDatabaseRead example_client example_helpers
       example_data remote_serverless)) = rd_throughput example_data"
proof -
  have fetch: "GetMongoDBDatabase example_client remote_serverless (ResourceGroup example_ident)
      (DatabaseAccountName example_ident) (Name example_ident)
    = ((\<lparr>db_Response = Some 200, db_ID = Some example_id,
          db_MongoDBDatabaseGetProperties =
            Some \<lparr>props_Resource = Some \<lparr>res_ID = Some ''orders''\<rparr>\<rparr>\<rparr>, None), remote_serverless)"
    by (simp add: example_client_def remote_serverless_def example_ident_def)
  have acc: "AccountGet example_client remote_serverless
      (ResourceGroup example_ident) (DatabaseAccountName example_ident)
    = ((\<lparr>acc_Response = Some 200,
          acc_ID = Some ''/subscriptions/sub1/resourceGroups/rg1/providers/Microsoft.DocumentDB/databaseAccounts/acct1'',
          acc_Capabilities = [''EnableServerless'']\<rparr>, None), remote_serverless)"
    by (simp add: example_client_def remote_serverless_def)
  from Read_serverless_skips_query_keeps_capacity [OF example_parse fetch acc]
  show ?thesis by (simp add: example_helpers_def)
qed

text \<open>
  Claim C1 as stated asks for null fields on return. A Read of resource data holding
  \<^verbatim>\<open>throughput = 400\<close> against a serverless account returns nil and still holds 400.
\<close>

theorem Read_serverless_keeps_throughput_counterexample:
  "isServerlessCapacityMode example_helpers
     (fst (fst (AccountGet example_client remote_serverless ''rg1'' ''acct1'')))
   \<and> outcome_of (resourceCosmosDbMongoDatabaseRead example_client example_helpers
       example_data remote_serverless) = ReturnNil
   \<and> rd_throughput (data_of (resourceCosmosDbMongoDatabaseRead example_client example_helpers
       example_data remote_serverless)) = Some 400"
  by (simp add: resourceCosmosDbMongoDatabaseRead_def read_account_def read_throughput_def
        read_mirror_def example_client_def example_helpers_def example_data_def
        remote_serverless_def example_ident_def)

section \<open>Remote failures are returned\<close>




section \<open>Create: the identifier of an existing database\<close>

text \<open>
  Claim C3 fails on the code. Line 91 tests \<^verbatim>\<open>existing.ID == nil && *existing.ID == ""\<close>:
  with a nil identifier the right operand dereferences it, and with an empty identifier
  the test is false. A probe that succeeds with a nil identifier makes Create panic, and
  one that succeeds with an empty identifier makes Create return
  \<^verbatim>\<open>tf.ImportAsExistsError\<close> carrying the empty string; the error of line 92 is never
  returned.
\<close>

theorem Create_existing_nil_or_empty_identifier:
  "outcome_of (resourceCosmosDbMongoDatabaseCreate
      (example_client\<lparr>GetMongoDBDatabase := \<lambda>r rg a n.
         ((\<lparr>db_Response = Some 200, db_ID = None, db_MongoDBDatabaseGetProperties = None\<rparr>,
           None), r)\<rparr>)
      example_helpers example_config remote_present) = NilDereference
   \<and> outcome_of (resourceCosmosDbMongoDatabaseCreate
      (example_client\<lparr>GetMongoDBDatabase := \<lambda>r rg a n.
         ((\<lparr>db_Response = Some 200, db_ID = Some [], db_MongoDBDatabaseGetProperties = None\<rparr>,
           None), r)\<rparr>)
      example_helpers example_config remote_present)
     = ReturnErr (ImportAsExistsError ''azurerm_cosmosdb_mongo_database'' [])"
  by (simp add: resourceCosmosDbMongoDatabaseCreate_def create_existing_def Let_def)

section \<open>Create: the identifier of the re-fetched database\<close>

text \<open>
  Claim C4, as the code has it. Let the probe report not-found, the submission and the
  wait succeed, and the re-fetch of line 126 succeed. If the re-fetched identifier is nil,
  Create returns the error of line 132 and the resource data is untouched. Line 131 tests
  for nil only: if the identifier is the empty string, Create stores it
  (\<^verbatim>\<open>d.SetId("")\<close>) and returns what Read returns on it.
\<close>

theorem Create_refetch_identifier:
  assumes "GetMongoDBDatabase client r (Get_string (rd_resource_group_name d))
             (Get_string (rd_account_name d)) (Get_string (rd_name d)) = ((existing, Some e), r1)"
    and "ResponseWasNotFound (db_Response existing)"
    and "CreateUpdateMongoDBDatabase client r1 (Get_string (rd_resource_group_name d))
             (Get_string (rd_account_name d)) (Get_string (rd_name d))
             (create_payload h d (Get_string (rd_name d))) = ((future, None), r2)"
    and "WaitForCompletionRef client r2 future = (None, r3)"
    and "GetMongoDBDatabase client r3 (Get_string (rd_resource_group_name d))
             (Get_string (rd_account_name d)) (Get_string (rd_name d)) = ((resp, None), r4)"
  shows "(db_ID resp = None \<longrightarrow>
            outcome_of (resourceCosmosDbMongoDatabaseCreate client h d r)
              = ReturnErr (Errorf
                  ''Error getting ID from Cosmos Mongo Database %q (Account: %q)''
                  [Get_string (rd_name d), Get_string (rd_account_name d)] None)
            \<and> data_of (resourceCosmosDbMongoDatabaseCreate client h d r) = d)
       \<and> (db_ID resp = Some [] \<longrightarrow>
            outcome_of (resourceCosmosDbMongoDatabaseCreate client h d r)
              = outcome_of (resourceCosmosDbMongoDatabaseRead client h (d\<lparr>rd_Id := []\<rparr>) r4)
            \<and> data_of (resourceCosmosDbMongoDatabaseCreate client h d r)
              = data_of (resourceCosmosDbMongoDatabaseRead client h (d\<lparr>rd_Id := []\<rparr>) r4))"
  using assms
  by (simp add: resourceCosmosDbMongoDatabaseCreate_def create_submit_def create_refetch_def
        Let_def)

text \<open>The theorem at a remote whose records carry no identifier.\<close>

theorem Create_refetch_nil_identifier_witness:
  "outcome_of (resourceCosmosDbMongoDatabaseCreate nil_id_client example_helpers
      example_config remote_absent)
     = ReturnErr (Errorf ''Error getting ID from Cosmos Mongo Database %q (Account: %q)''
         [''orders'', ''acct1''] None)
   \<and> data_of (resourceCosmosDbMongoDatabaseCreate nil_id_client example_helpers
      example_config remote_absent) = example_config"
proof -
  let ?created = "remote_absent\<lparr>rm_database := Some example_id\<rparr>"
  have probe: "GetMongoDBDatabase nil_id_client remote_absent
      (Get_string (rd_resource_group_name example_config))
      (Get_string (rd_account_name example_config)) (Get_string (rd_name example_config))
    = ((\<lparr>db_Response = Some 404, db_ID = None, db_MongoDBDatabaseGetProperties = None\<rparr>,
        Some ''StatusCode=404''), remote_absent)"
    by (simp add: nil_id_client_def remote_absent_def)
  have nf: "ResponseWasNotFound (db_Response
      \<lparr>db_Response = Some 404, db_ID = None, db_MongoDBDatabaseGetProperties = None\<rparr>)"
    by (simp add: ResponseWasNotFound_def)
  have submit: "CreateUpdateMongoDBDatabase nil_id_client remote_absent
      (Get_string (rd_resource_group_name example_config))
      (Get_string (rd_account_name example_config)) (Get_string (rd_name example_config))
      (create_payload example_helpers example_config (Get_string (rd_name example_config)))
    = ((\<lparr>fut_Response = Some 202, fut_token = 0\<rparr>, None), ?created)"
    by (simp add: nil_id_client_def example_client_def example_config_def example_id_def
          Get_string_def)
  have wait: "WaitForCompletionRef nil_id_client ?created \<lparr>fut_Response = Some 202, fut_token = 0\<rparr>
    = (None, ?created)"
    by (simp add: nil_id_client_def example_client_def)
  have refetch: "GetMongoDBDatabase nil_id_client ?created
      (Get_string (rd_resource_group_name example_config))
      (Get_string (rd_account_name example_config)) (Get_string (rd_name example_config))
    = ((\<lparr>db_Response = Some 200, db_ID = None, db_MongoDBDatabaseGetProperties = None\<rparr>,
        None), ?created)"
    by (simp add: nil_id_client_def remote_absent_def)
  from Create_refetch_identifier [OF probe nf submit wait refetch]
  show ?thesis by (simp add: example_config_def Get_string_def)
qed

text \<open>
  Claim C4 as stated asks for the error of line 132 also when the re-fetched identifier
  is the empty string. There Create calls Read, and returns the error of the identifier
  parser.
\<close>

theorem Create_refetch_empty_identifier_counterexample:
  "fst (GetMongoDBDatabase empty_id_client (remote_absent\<lparr>rm_database := Some []\<rparr>)
          ''rg1'' ''acct1'' ''orders'')
     = (\<lparr>db_Response = Some 200, db_ID = Some [],
         db_MongoDBDatabaseGetProperties =
           Some \<lparr>props_Resource = Some \<lparr>res_ID = Some ''orders''\<rparr>\<rparr>\<rparr>, None)
   \<and> outcome_of (resourceCosmosDbMongoDatabaseCreate empty_id_client example_helpers
        example_config remote_absent)
     = ReturnErr (Passed ''cannot parse the identifier'')
   \<and> map ev_site (calls_of (resourceCosmosDbMongoDatabaseCreate empty_id_client example_helpers
        example_config remote_absent))
     = [CreateProbe, CreateSubmit, CreateWait, CreateRefetch]"
  by (simp add: resourceCosmosDbMongoDatabaseCreate_def create_submit_def create_refetch_def
        resourceCosmosDbMongoDatabaseRead_def Let_def empty_id_client_def example_client_def
        example_helpers_def example_config_def example_id_def remote_absent_def
        Get_string_def ResponseWasNotFound_def)

section \<open>Update: the base payload\<close>

text \<open>
  Claim C5, as the code has it. An Update whose identifier parses and whose capacity
  check passes submits exactly one create/update request, and its payload carries the
  database name and empty options: neither a fixed throughput nor autoscale settings,
  whatever the resource data holds. Lines 155 to 162 build it without reading
  \<^verbatim>\<open>throughput\<close> or \<^verbatim>\<open>autoscale_settings\<close>; capacity goes through the separate call of
  line 175.
\<close>

theorem Update_base_payload_has_no_capacity:
  assumes "MongodbDatabaseID h (rd_Id d) = Inr ident"
    and "CheckForChangeFromAutoscaleAndManualThroughput h d = None"
  shows "submitted_payloads (calls_of (resourceCosmosDbMongoDatabaseUpdate client h d r))
     = [\<lparr>Resource_ID = Some (Name ident), Options_Throughput = None,
         Options_AutoscaleSettings = None\<rparr>]"
  using assms
  by (simp add: resourceCosmosDbMongoDatabaseUpdate_def update_payload_def Let_def
        split: prod.splits option.splits)

text \<open>The theorem at an Update of stored data with \<^verbatim>\<open>throughput = 400\<close>.\<close>

theorem Update_base_payload_witness:
  "submitted_payloads (calls_of (resourceCosmosDbMongoDatabaseUpdate example_client
      example_helpers example_data remote_present))
     = [\<lparr>Resource_ID = Some ''orders'', Options_Throughput = None,
         Options_AutoscaleSettings = None\<rparr>]"
proof -
  have check: "CheckForChangeFromAutoscaleAndManualThroughput example_helpers example_data = None"
    by (simp add: example_helpers_def)
  from Update_base_payload_has_no_capacity [OF example_parse check]
  show ?thesis by (simp add: example_ident_def)
qed

text \<open>
  Claim C5 as stated asks for the fixed throughput to be attached when it is present
  and non-zero, as Create does. With \<^verbatim>\<open>throughput = 400\<close> the payload of Update carries no
  throughput, where the payload of Create carries 400.
\<close>

theorem Update_base_payload_counterexample:
  "GetOk_int (rd_throughput example_data) = (400, True)
   \<and> map Options_Throughput (submitted_payloads (calls_of (resourceCosmosDbMongoDatabaseUpdate
        example_client example_helpers example_data remote_present))) = [None]
   \<and> map Options_Throughput (submitted_payloads (calls_of (resourceCosmosDbMongoDatabaseCreate
        example_client example_helpers example_config remote_absent))) = [Some 400]"
  by (simp add: resourceCosmosDbMongoDatabaseUpdate_def update_payload_def Let_def
        resourceCosmosDbMongoDatabaseCreate_def create_submit_def create_payload_def
        example_client_def example_helpers_def example_data_def example_config_def
        remote_absent_def remote_present_def
        GetOk_int_def GetOk_list_def Get_string_def ResponseWasNotFound_def)

section \<open>Create: the probe\<close>

text \<open>
  Claim C6 fails on the code where the probe finds a record without identifier. Name
  the result of the probe of line 85. If it succeeds and the record has the identifier
  \<open>i\<close>, Create returns \<^verbatim>\<open>tf.ImportAsExistsError\<close> carrying \<open>i\<close>. If it succeeds and the
  identifier is nil, line 91 dereferences it and Create panics, where the claim asks for
  the error. If the probe fails and the response is not not-found, Create returns that
  failure, wrapped with the database and account names. In all three cases nothing but
  the probe was called and the resource data is untouched.
\<close>

theorem Create_probe_outcomes:
  assumes "GetMongoDBDatabase client r (Get_string (rd_resource_group_name d))
             (Get_string (rd_account_name d)) (Get_string (rd_name d)) = ((existing, err), r1)"
  shows "(\<forall>i. err = None \<and> db_ID existing = Some i \<longrightarrow>
            outcome_of (resourceCosmosDbMongoDatabaseCreate client h d r)
              = ReturnErr (ImportAsExistsError ''azurerm_cosmosdb_mongo_database'' i))
       \<and> (err = None \<and> db_ID existing = None \<longrightarrow>
            outcome_of (resourceCosmosDbMongoDatabaseCreate client h d r) = NilDereference)
       \<and> (\<forall>e. err = Some e \<and> \<not> ResponseWasNotFound (db_Response existing) \<longrightarrow>
            outcome_of (resourceCosmosDbMongoDatabaseCreate client h d r)
              = ReturnErr (Errorf
                  ''Error checking for presence of creating Cosmos Mongo Database %q (Account: %q): %+v''
                  [Get_string (rd_name d), Get_string (rd_account_name d)] (Some e)))
       \<and> (err = None \<or> \<not> ResponseWasNotFound (db_Response existing) \<longrightarrow>
            data_of (resourceCosmosDbMongoDatabaseCreate client h d r) = d
            \<and> map ev_site (calls_of (resourceCosmosDbMongoDatabaseCreate client h d r))
                = [CreateProbe])"
  using assms
  by (auto simp add: resourceCosmosDbMongoDatabaseCreate_def create_existing_def Let_def
        split: option.splits)

text \<open>The theorem at a database that exists and whose record carries no identifier.\<close>

theorem Create_probe_nil_identifier_witness:
  "fst (GetMongoDBDatabase nil_id_client remote_present ''rg1'' ''acct1'' ''orders'')
     = (\<lparr>db_Response = Some 200, db_ID = None, db_MongoDBDatabaseGetProperties = None\<rparr>, None)
   \<and> outcome_of (resourceCosmosDbMongoDatabaseCreate nil_id_client example_helpers
        example_config remote_present) = NilDereference"
proof -
  have found: "GetMongoDBDatabase nil_id_client remote_present
      (Get_string (rd_resource_group_name example_config))
      (Get_string (rd_account_name example_config)) (Get_string (rd_name example_config))
    = ((\<lparr>db_Response = Some 200, db_ID = None, db_MongoDBDatabaseGetProperties = None\<rparr>,
        None), remote_present)"
    by (simp add: nil_id_client_def remote_present_def)
  from Create_probe_outcomes [OF found, of example_helpers]
  show ?thesis by (simp add: nil_id_client_def remote_present_def)
qed

section \<open>Create: the payload\<close>

text \<open>
  Claim C7. A Create whose probe reports not-found submits exactly one create/update
  request. Its payload names the database. It carries as fixed throughput what
  \<^verbatim>\<open>ConvertThroughputFromResourceData\<close> makes of \<^verbatim>\<open>throughput\<close> if that field is set and
  non-zero, and nothing otherwise; it carries as autoscale settings what
  \<^verbatim>\<open>ExpandCosmosDbAutoscaleSettings\<close> returns if \<^verbatim>\<open>autoscale_settings\<close> is set and non-empty, and
  nothing otherwise. So each is attached only when it is present, and on a desired
  configuration whose capacity is a oneof the payload never carries both.
\<close>

theorem Create_payload_attachments:
  assumes "GetMongoDBDatabase client r (Get_string (rd_resource_group_name d))
             (Get_string (rd_account_name d)) (Get_string (rd_name d)) = ((existing, Some e), r1)"
    and "ResponseWasNotFound (db_Response existing)"
  shows "\<exists>db. submitted_payloads (calls_of (resourceCosmosDbMongoDatabaseCreate client h d r)) = [db]
     \<and> Resource_ID db = Some (Get_string (rd_name d))
     \<and> Options_Throughput db =
         (case rd_throughput d of
            None \<Rightarrow> None
          | Some n \<Rightarrow> if n = 0 then None else ConvertThroughputFromResourceData h n)
     \<and> Options_AutoscaleSettings db =
         (case rd_autoscale_settings d of
            None \<Rightarrow> None
          | Some xs \<Rightarrow> if xs = [] then None else ExpandCosmosDbAutoscaleSettings h d)
     \<and> (Options_Throughput db \<noteq> None \<longrightarrow> (\<exists>n. rd_throughput d = Some n \<and> n \<noteq> 0))
     \<and> (Options_AutoscaleSettings db \<noteq> None \<longrightarrow>
          (\<exists>xs. rd_autoscale_settings d = Some xs \<and> xs \<noteq> []))
     \<and> (capacity_oneof d \<longrightarrow>
          \<not> (Options_Throughput db \<noteq> None \<and> Options_AutoscaleSettings db \<noteq> None))"
  using assms
  by (auto simp add: resourceCosmosDbMongoDatabaseCreate_def create_submit_def create_payload_def
        Let_def GetOk_int_def GetOk_list_def capacity_oneof_def
        split: prod.splits option.splits)

text \<open>The theorem at a configuration with \<^verbatim>\<open>throughput = 400\<close> and no autoscale settings:
  the payload carries the name and the throughput 400.\<close>

theorem Create_payload_witness:
  "capacity_oneof example_config
   \<and> submitted_payloads (calls_of (resourceCosmosDbMongoDatabaseCreate example_client
      example_helpers example_config remote_absent))
     = [\<lparr>Resource_ID = Some ''orders'', Options_Throughput = Some 400,
         Options_AutoscaleSettings = None\<rparr>]"
proof -
  have probe: "GetMongoDBDatabase example_client remote_absent
      (Get_string (rd_resource_group_name example_config))
      (Get_string (rd_account_name example_config)) (Get_string (rd_name example_config))
    = ((\<lparr>db_Response = Some 404, db_ID = None, db_MongoDBDatabaseGetProperties = None\<rparr>,
        Some ''StatusCode=404''), remote_absent)"
    by (simp add: example_client_def remote_absent_def)
  have nf: "ResponseWasNotFound (db_Response
      \<lparr>db_Response = Some 404, db_ID = None, db_MongoDBDatabaseGetProperties = None\<rparr>)"
    by (simp add: ResponseWasNotFound_def)
  have oneof: "capacity_oneof example_config"
    by (simp add: capacity_oneof_def example_config_def)
  from Create_payload_attachments [OF probe nf, of example_helpers] obtain db where
    one: "submitted_payloads (calls_of (resourceCosmosDbMongoDatabaseCreate example_client
        example_helpers example_config remote_absent)) = [db]"
    and name: "Resource_ID db = Some (Get_string (rd_name example_config))"
    and thr: "Options_Throughput db =
         (case rd_throughput example_config of
            None \<Rightarrow> None
          | Some n \<Rightarrow> if n = 0 then None
                       else ConvertThroughputFromResourceData example_helpers n)"
    and auto_settings: "Options_AutoscaleSettings db =
         (case rd_autoscale_settings example_config of
            None \<Rightarrow> None
          | Some xs \<Rightarrow> if xs = [] then None
                        else ExpandCosmosDbAutoscaleSettings example_helpers example_config)"
    by blast
  from name thr auto_settings
  have "db = \<lparr>Resource_ID = Some ''orders'', Options_Throughput = Some 400,
         Options_AutoscaleSettings = None\<rparr>"
    by (cases db) (simp add: example_config_def example_helpers_def Get_string_def)
  with one oneof show ?thesis by simp
qed

section \<open>Read: drift and failures\<close>

text \<open>
  Claim C8. Name the results of the three remote calls of Read. If the base fetch fails
  and its response is not-found, Read returns nil and the identifier is cleared
  (\<^verbatim>\<open>d.SetId("")\<close>). If the base fetch fails otherwise, or the account fetch fails, or the
  throughput fetch of a provisioned account fails with a response other than not-found,
  Read returns an error and the identifier is the one it had. Whenever Read returns an
  error, the identifier is the one it had.
\<close>

theorem Read_not_found_clears_other_failures_keep_id:
  assumes "MongodbDatabaseID h (rd_Id d) = Inr ident"
    and "GetMongoDBDatabase client r (ResourceGroup ident) (DatabaseAccountName ident) (Name ident)
           = ((resp, err), r1)"
    and "AccountGet client r1 (ResourceGroup ident) (DatabaseAccountName ident)
           = ((accResp, aerr), r2)"
    and "GetMongoDBDatabaseThroughput client r2 (ResourceGroup ident) (DatabaseAccountName ident) (Name ident)
           = ((tResp, terr), r3)"
  shows "(err \<noteq> None \<and> ResponseWasNotFound (db_Response resp) \<longrightarrow>
            outcome_of (resourceCosmosDbMongoDatabaseRead client h d r) = ReturnNil \<and>
            rd_Id (data_of (resourceCosmosDbMongoDatabaseRead client h d r)) = [])
       \<and> (err \<noteq> None \<and> \<not> ResponseWasNotFound (db_Response resp) \<longrightarrow>
            is_error (outcome_of (resourceCosmosDbMongoDatabaseRead client h d r)) \<and>
            rd_Id (data_of (resourceCosmosDbMongoDatabaseRead client h d r)) = rd_Id d)
       \<and> (err = None \<and> aerr \<noteq> None \<longrightarrow>
            is_error (outcome_of (resourceCosmosDbMongoDatabaseRead client h d r)) \<and>
            rd_Id (data_of (resourceCosmosDbMongoDatabaseRead client h d r)) = rd_Id d)
       \<and> (err = None \<and> aerr = None \<and> acc_ID accResp \<noteq> None \<and> acc_ID accResp \<noteq> Some []
            \<and> \<not> isServerlessCapacityMode h accResp
            \<and> terr \<noteq> None \<and> \<not> ResponseWasNotFound (tsg_Response tResp) \<longrightarrow>
            is_error (outcome_of (resourceCosmosDbMongoDatabaseRead client h d r)) \<and>
            rd_Id (data_of (resourceCosmosDbMongoDatabaseRead client h d r)) = rd_Id d)
       \<and> (is_error (outcome_of (resourceCosmosDbMongoDatabaseRead client h d r)) \<longrightarrow>
            rd_Id (data_of (resourceCosmosDbMongoDatabaseRead client h d r)) = rd_Id d)"
proof (intro conjI)
  show "is_error (outcome_of (resourceCosmosDbMongoDatabaseRead client h d r)) \<longrightarrow>
      rd_Id (data_of (resourceCosmosDbMongoDatabaseRead client h d r)) = rd_Id d"
    by (simp add: Read_error_keeps_Id)
qed (use assms in \<open>auto simp add: resourceCosmosDbMongoDatabaseRead_def read_account_def
      read_throughput_def is_error_def\<close>)

text \<open>The theorem at a database that is gone from the remote.\<close>

theorem Read_not_found_witness:
  "outcome_of (resourceCosmosDbMongoDatabaseRead example_client example_helpers
       example_data remote_absent) = ReturnNil
   \<and> rd_Id (data_of (resourceCosmosDbMongoDatabaseRead example_client example_helpers
       example_data remote_absent)) = []"
proof -
  have fetch: "GetMongoDBDatabase example_client remote_absent (ResourceGroup example_ident)
      (DatabaseAccountName example_ident) (Name example_ident)
    = ((\<lparr>db_Response = Some 404, db_ID = None, db_MongoDBDatabaseGetProperties = None\<rparr>,
        Some ''StatusCode=404''), remote_absent)"
    by (simp add: example_client_def remote_absent_def)
  obtain accResp aerr r2 where acc: "AccountGet example_client remote_absent
      (ResourceGroup example_ident) (DatabaseAccountName example_ident) = ((accResp, aerr), r2)"
    by (metis prod.exhaust)
  obtain tResp terr r3 where thr: "GetMongoDBDatabaseThroughput example_client r2
      (ResourceGroup example_ident) (DatabaseAccountName example_ident) (Name example_ident)
      = ((tResp, terr), r3)"
    by (metis prod.exhaust)
  from Read_not_found_clears_other_failures_keep_id [OF example_parse fetch acc thr]
  show ?thesis by (simp add: ResponseWasNotFound_def)
qed

section \<open>Delete: the submission and the wait\<close>

text \<open>
  Claim C9, as the code has it. Name the results of the delete submission and of the
  wait on the future it returned. A submission failure that came with a response other
  than not-found is returned, wrapped. After a submission that succeeded, Delete returns
  the wrapped failure of the wait if there is one, and nil if there is none. Delete never
  writes the resource data: it has no \<^verbatim>\<open>d.SetId("")\<close>. Nothing is said of a submission
  that reported not-found or failed without a response.
\<close>

theorem Delete_submission_and_wait:
  assumes "MongodbDatabaseID h (rd_Id d) = Inr ident"
    and "DeleteMongoDBDatabase client r (ResourceGroup ident) (DatabaseAccountName ident)
           (Name ident) = ((future, err), r1)"
    and "WaitForCompletionRef client r1 future = (werr, r2)"
  shows "(\<forall>e. err = Some e \<and> fut_Response future \<noteq> None
              \<and> \<not> WasNotFound (fut_Response future) \<longrightarrow>
            outcome_of (resourceCosmosDbMongoDatabaseDelete client h d r)
              = ReturnErr (Errorf ''Error deleting Cosmos Mongo Database %q (Account: %q): %+v''
                  [Name ident, DatabaseAccountName ident] (Some e)))
       \<and> (err = None \<longrightarrow>
            (\<forall>e. werr = Some e \<longrightarrow>
               outcome_of (resourceCosmosDbMongoDatabaseDelete client h d r)
                 = ReturnErr (Errorf
                     ''Error waiting on delete future for Cosmos Mongo Database %q (Account: %q): %+v''
                     [Name ident, DatabaseAccountName ident] (Some e)))
            \<and> (werr = None \<longrightarrow>
               outcome_of (resourceCosmosDbMongoDatabaseDelete client h d r) = ReturnNil))
       \<and> data_of (resourceCosmosDbMongoDatabaseDelete client h d r) = d"
  using assms
  by (auto simp add: resourceCosmosDbMongoDatabaseDelete_def delete_wait_def future_wait_def
        split: option.splits)

text \<open>The theorem at a Delete of the stored database: the submission and the wait
  succeed.\<close>

theorem Delete_success_witness:
  "outcome_of (resourceCosmosDbMongoDatabaseDelete example_client example_helpers
      example_data remote_present) = ReturnNil
   \<and> data_of (resourceCosmosDbMongoDatabaseDelete example_client example_helpers
      example_data remote_present) = example_data"
proof -
  let ?deleted = "remote_present\<lparr>rm_database := None\<rparr>"
  have submit: "DeleteMongoDBDatabase example_client remote_present (ResourceGroup example_ident)
      (DatabaseAccountName example_ident) (Name example_ident)
    = ((\<lparr>fut_Response = Some 202, fut_token = 2\<rparr>, None), ?deleted)"
    by (simp add: example_client_def)
  have wait: "WaitForCompletionRef example_client ?deleted
      \<lparr>fut_Response = Some 202, fut_token = 2\<rparr> = (None, ?deleted)"
    by (simp add: example_client_def)
  from Delete_submission_and_wait [OF example_parse submit wait]
  show ?thesis by simp
qed

text \<open>
  Claim C9 as stated asks for the persisted state to be cleared on every success path. A
  Delete that succeeds leaves the identifier in the resource data.
\<close>

theorem Delete_keeps_state_counterexample:
  "outcome_of (resourceCosmosDbMongoDatabaseDelete example_client example_helpers
        example_data remote_present) = ReturnNil
   \<and> rd_Id (data_of (resourceCosmosDbMongoDatabaseDelete example_client example_helpers
        example_data remote_present)) = rd_Id example_data
   \<and> rd_Id example_data \<noteq> []"
  by (simp add: resourceCosmosDbMongoDatabaseDelete_def delete_wait_def future_wait_def
        example_client_def example_helpers_def
        example_data_def example_ident_def example_id_def WasNotFound_def)

section \<open>The identifier round trip\<close>

text \<open>
  Claim C10, on the codec modelled from the spec. In every layout whose literal segments
  are path segments: a triple of non-empty components none of which contains \<^verbatim>\<open>/\<close> is
  parsed back from its serialization; a string that is the serialization of no
  identifier with non-empty components is refused with \<^verbatim>\<open>MalformedIdentifier\<close>; and so is
  a legacy string \<^verbatim>\<open>{rg}|{account}|{name}\<close> that contains no \<^verbatim>\<open>/\<close>.
\<close>

theorem identifier_round_trip:
  "(layout_ok L \<and> resourceGroup \<noteq> [] \<and> accountName \<noteq> [] \<and> databaseName \<noteq> []
      \<and> slash_free resourceGroup \<and> slash_free accountName \<and> slash_free databaseName \<longrightarrow>
      Parse L (Serialize L (Build resourceGroup accountName databaseName))
        = Inr (Build resourceGroup accountName databaseName))
   \<and> ((\<forall>ident. nonempty_fields ident \<longrightarrow> s \<noteq> Serialize L ident) \<longrightarrow>
        Parse L s = Inl MalformedIdentifier)
   \<and> (slash_free (resourceGroup @ ''|'' @ accountName @ ''|'' @ databaseName) \<longrightarrow>
        Parse L (resourceGroup @ ''|'' @ accountName @ ''|'' @ databaseName)
          = Inl MalformedIdentifier)"
proof (intro conjI impI)
  assume a: "layout_ok L \<and> resourceGroup \<noteq> [] \<and> accountName \<noteq> [] \<and> databaseName \<noteq> []
      \<and> slash_free resourceGroup \<and> slash_free accountName \<and> slash_free databaseName"
  let ?ident = "Build resourceGroup accountName databaseName"
  from a have "list_all slash_free (segments L ?ident)"
    by (intro segments_slash_free) (simp_all add: Build_def)
  moreover have "segments L ?ident \<noteq> []" by (simp add: segments_def)
  ultimately have "split_path (Serialize L ?ident) = segments L ?ident"
    by (simp add: Serialize_def split_join_path)
  moreover from a have "nonempty_fields ?ident" by (simp add: nonempty_fields_def Build_def)
  ultimately show "Parse L (Serialize L ?ident) = Inr ?ident"
    by (rule Parse_segments [rotated])
next
  assume none: "\<forall>ident. nonempty_fields ident \<longrightarrow> s \<noteq> Serialize L ident"
  show "Parse L s = Inl MalformedIdentifier"
  proof (cases "Parse L s")
    case (Inl e)
    then show ?thesis using Parse_Inl by blast
  next
    case (Inr ident)
    with none show ?thesis using Parse_Inr_Serialize by blast
  qed
next
  let ?legacy = "resourceGroup @ ''|'' @ accountName @ ''|'' @ databaseName"
  assume "slash_free ?legacy"
  then have "split_path ?legacy = [?legacy]" by (rule split_path_slash_free)
  then show "Parse L ?legacy = Inl MalformedIdentifier"
    by (cases "before_resourceGroups L")
       (auto simp add: Parse_def split: option.splits list.splits if_splits
          dest!: strip_prefix_Some)
qed

text \<open>The theorem at the identifier of the database \<^verbatim>\<open>orders\<close> and at its legacy form.\<close>

theorem identifier_round_trip_witness:
  "Parse azure_layout (Serialize azure_layout (Build ''rg1'' ''acct1'' ''orders''))
     = Inr (Build ''rg1'' ''acct1'' ''orders'')
   \<and> Serialize azure_layout (Build ''rg1'' ''acct1'' ''orders'') = example_id
   \<and> Parse azure_layout ''rg1|acct1|orders'' = Inl MalformedIdentifier"
proof -
  have ok: "layout_ok azure_layout"
    by (simp add: layout_ok_def azure_layout_def slash_free_def)
  have free: "slash_free ''rg1''" "slash_free ''acct1''" "slash_free ''orders''"
      "slash_free (''rg1'' @ ''|'' @ ''acct1'' @ ''|'' @ ''orders'')"
    by (simp_all add: slash_free_def)
  have ser: "Serialize azure_layout (Build ''rg1'' ''acct1'' ''orders'') = example_id"
    by (simp add: Serialize_def segments_def azure_layout_def Build_def example_id_def)
  from identifier_round_trip [where L = azure_layout and resourceGroup = "''rg1''"
      and accountName = "''acct1''" and databaseName = "''orders''" and s = "[]"] ok free ser
  show ?thesis by simp
qed

text \<open>
  Claim C10 as stated takes every triple of non-empty strings. A component that
  contains \<^verbatim>\<open>/\<close> is serialized into two path segments, and the serialization is refused.
\<close>

theorem identifier_round_trip_counterexample:
  "''a/b'' \<noteq> [] \<and> ''acct1'' \<noteq> [] \<and> ''orders'' \<noteq> []
   \<and> Parse azure_layout (Serialize azure_layout (Build ''a/b'' ''acct1'' ''orders''))
     = Inl MalformedIdentifier"
  by (simp add: Parse_def Serialize_def segments_def azure_layout_def Build_def)

end
